theory Spec2Isabelle
  imports Complex_Main
begin

section \<open>JavaScript values\<close>

text \<open>
  A JavaScript Number is a double. The code under verification never does arithmetic on
  a number, it only compares numbers and passes them on, so a finite number is modelled
  by its exact rational value (both zeros are the one value \<open>Finite 0\<close>, which no
  comparison tells apart).
\<close>

datatype jsnum = Finite rat | NaN | PosInfinity | NegInfinity

text \<open>
  Primitive values carry their content; every object (a Buffer, a Script, an Amount, a
  Promise, a plain object) and every function is a reference, as in the language. A
  string is the list of its code units, and \<open>length\<close> is the \<open>length\<close> property;
  the model has the strings whose code units are below 256, which include every hex
  string and every string literal of the code.
\<close>

datatype jsval =
    JUndefined
  | JNull
  | JBool bool
  | JNum jsnum
  | JStr string
  | JBigInt int
  | JSymbol nat
  | JFunction nat
  | JObject nat

datatype error =
  AssertionError | ReferenceError | TypeError | RangeError | CollaboratorError string

datatype 'a outcome = Returned 'a | Thrown error

text \<open>An object received from a caller, seen through its property reads: \<open>options.name\<close>
  is \<open>options ''name''\<close>, and a property that is absent reads as \<open>undefined\<close>.\<close>

type_synonym jsobject = "string \<Rightarrow> jsval"

definition no_properties :: jsobject where
  "no_properties = (\<lambda>name. JUndefined)"

fun typeof :: "jsval \<Rightarrow> string" where
  "typeof JUndefined = ''undefined''"
| "typeof JNull = ''object''"
| "typeof (JBool b) = ''boolean''"
| "typeof (JNum n) = ''number''"
| "typeof (JStr s) = ''string''"
| "typeof (JBigInt i) = ''bigint''"
| "typeof (JSymbol k) = ''symbol''"
| "typeof (JFunction r) = ''function''"
| "typeof (JObject r) = ''object''"

text \<open>\<open>x != null\<close>: loose inequality with \<open>null\<close> is false for \<open>null\<close> and
  \<open>undefined\<close> only.\<close>

fun not_null :: "jsval \<Rightarrow> bool" where
  "not_null JUndefined = False"
| "not_null JNull = False"
| "not_null v = True"

text \<open>\<open>x === y\<close>: same type and same value; \<open>NaN\<close> differs from itself; objects,
  functions and symbols are equal when they are the same reference.\<close>

fun strict_eq :: "jsval \<Rightarrow> jsval \<Rightarrow> bool" where
  "strict_eq (JNum a) (JNum b) = (a \<noteq> NaN \<and> b \<noteq> NaN \<and> a = b)"
| "strict_eq a b = (a = b)"

section \<open>Collaborators outside the repository\<close>

text \<open>
  The constant tables (\<open>common\<close>, \<open>consensus\<close>, the network registry), the Amount class
  and the behaviour of objects handed in by callers are not part of the sources; they
  are parameters of the model. So are the two objects made once when the modules are
  loaded: \<open>EMPTY\<close>, the empty Buffer, and \<open>regtest\<close>, the network the options default
  to, with its \<open>mainchainPort\<close>.
\<close>

record env =
  THIS_SIDECHAIN :: jsnum
  CRITICAL_DATA_AMT :: jsval
  SIDECHAIN_BUILD_TAR_HASH :: jsval
  SIDECHAIN_BUILD_COMMIT_HASH :: jsval
  EMPTY :: jsval
  regtest :: jsval
  mainchainPort :: jsval
  Amount_throws :: "jsval \<Rightarrow> error option"
  Amount_toString :: "jsval \<Rightarrow> string"
  StrNumericLiteral :: "string \<Rightarrow> jsnum"
  object_primitive :: "nat \<Rightarrow> error + jsval"
  object_length :: "nat \<Rightarrow> error + jsval"

section \<open>Relational comparison\<close>

text \<open>\<open>Number::lessThan\<close>; \<open>None\<close> is the result \<open>undefined\<close> of a comparison with
  \<open>NaN\<close>.\<close>

fun num_lt :: "jsnum \<Rightarrow> jsnum \<Rightarrow> bool option" where
  "num_lt NaN y = None"
| "num_lt x NaN = None"
| "num_lt PosInfinity y = Some False"
| "num_lt x PosInfinity = Some True"
| "num_lt x NegInfinity = Some False"
| "num_lt NegInfinity y = Some True"
| "num_lt (Finite a) (Finite b) = Some (a < b)"

definition StrWhiteSpaceChar :: "char \<Rightarrow> bool" where
  "StrWhiteSpaceChar c =
     (c \<in> set [CHR 0x09, CHR 0x0A, CHR 0x0B, CHR 0x0C, CHR 0x0D, CHR '' '', CHR 0xA0])"

text \<open>
  \<open>StringToNumber\<close>: a string of white space only is \<open>0\<close>; a numeric literal begins,
  after white space, with a digit, a sign, a dot or the \<open>I\<close> of \<open>Infinity\<close>, and its
  value (rounded to a double) is left to the parameter \<open>StrNumericLiteral\<close>; every other
  string is \<open>NaN\<close>.
\<close>

definition StringToNumber :: "env \<Rightarrow> string \<Rightarrow> jsnum" where
  "StringToNumber env s =
     (case dropWhile StrWhiteSpaceChar s of
        [] \<Rightarrow> Finite 0
      | c # cs \<Rightarrow>
          if c \<in> set ''0123456789+-.I'' then StrNumericLiteral env (c # cs) else NaN)"

text \<open>\<open>ToPrimitive\<close>: an object or function answers through its own \<open>valueOf\<close> and
  \<open>toString\<close>; an answer that is no primitive is a \<open>TypeError\<close>.\<close>

fun is_primitive :: "jsval \<Rightarrow> bool" where
  "is_primitive (JObject r) = False"
| "is_primitive (JFunction r) = False"
| "is_primitive v = True"

definition OrdinaryToPrimitive :: "env \<Rightarrow> nat \<Rightarrow> error + jsval" where
  "OrdinaryToPrimitive env r =
     (case object_primitive env r of
        Inl e \<Rightarrow> Inl e
      | Inr p \<Rightarrow> if is_primitive p then Inr p else Inl TypeError)"

fun ToPrimitive :: "env \<Rightarrow> jsval \<Rightarrow> error + jsval" where
  "ToPrimitive env (JObject r) = OrdinaryToPrimitive env r"
| "ToPrimitive env (JFunction r) = OrdinaryToPrimitive env r"
| "ToPrimitive env v = Inr v"

text \<open>The numeric value a primitive takes in a comparison with a Number. A BigInt is
  compared by its mathematical value; a Symbol cannot be converted.\<close>

fun ToNumeric :: "env \<Rightarrow> jsval \<Rightarrow> error + jsnum" where
  "ToNumeric env JUndefined = Inr NaN"
| "ToNumeric env JNull = Inr (Finite 0)"
| "ToNumeric env (JBool b) = Inr (Finite (if b then 1 else 0))"
| "ToNumeric env (JNum n) = Inr n"
| "ToNumeric env (JStr s) = Inr (StringToNumber env s)"
| "ToNumeric env (JBigInt i) = Inr (Finite (of_int i))"
| "ToNumeric env v = Inl TypeError"

text \<open>\<open>x >= n\<close> for a Number \<open>n\<close>: true when \<open>x < n\<close> is \<open>false\<close>, false when it is
  \<open>true\<close> or \<open>undefined\<close>.\<close>

definition ge_number :: "env \<Rightarrow> jsval \<Rightarrow> jsnum \<Rightarrow> error + bool" where
  "ge_number env x n =
     (case ToPrimitive env x of
        Inl e \<Rightarrow> Inl e
      | Inr px \<Rightarrow>
          (case ToNumeric env px of
             Inl e \<Rightarrow> Inl e
           | Inr nx \<Rightarrow> Inr (num_lt nx n = Some False)))"

section \<open>SidechainObject\<close>

record SidechainObject =
  sidechain :: jsval
  hash :: jsval
  script :: jsval
  type :: jsval
  version :: jsval

text \<open>
  \<open>fromOptions\<close> of \<open>SidechainObject\<close>. The \<open>if\<close> statements have no braces, so each
  guards its \<open>assert\<close> only and the assignment below it always runs. The second
  assertion reads the identifier \<open>hash\<close>, which nothing declares: evaluating it throws a
  \<open>ReferenceError\<close>. The object is returned with the state it has when the method
  returns or throws.
\<close>

definition SidechainObject_fromOptions ::
  "jsobject \<Rightarrow> SidechainObject \<Rightarrow> unit outcome \<times> SidechainObject" where
  "SidechainObject_fromOptions options this =
     (if not_null (options ''sidechain'') \<and> typeof (options ''sidechain'') \<noteq> ''number''
      then (Thrown AssertionError, this)
      else let this = this\<lparr>sidechain := options ''sidechain''\<rparr> in
      if not_null (options ''hash'')
      then (Thrown ReferenceError, this)
      else let this = this\<lparr>hash := options ''hash''\<rparr> in
      if not_null (options ''script'') \<and> typeof (options ''script'') \<noteq> ''object''
      then (Thrown AssertionError, this)
      else let this = this\<lparr>script := options ''script''\<rparr> in
      if not_null (options ''type'') \<and> typeof (options ''type'') \<noteq> ''number''
      then (Thrown AssertionError, this)
      else let this = this\<lparr>type := options ''type''\<rparr> in
      if not_null (options ''version'') \<and> typeof (options ''version'') \<noteq> ''number''
      then (Thrown AssertionError, this)
      else let this = this\<lparr>version := options ''version''\<rparr> in
      let this = this\<lparr>sidechain := options ''sidechain''\<rparr>;
          this = this\<lparr>hash := options ''hash''\<rparr>;
          this = this\<lparr>script := options ''script''\<rparr>;
          this = this\<lparr>type := options ''type''\<rparr>;
          this = this\<lparr>version := options ''version''\<rparr>
      in (Returned (), this))"


section \<open>The heap\<close>

text \<open>Objects the code allocates itself. A new object gets the next free reference.\<close>

datatype obj =
    ScriptObj
  | PlainObj "(string \<times> jsval) list"
  | AmountObj jsval
  | PromiseObj
  | ClientObj

record heap =
  next_ref :: nat
  objects :: "nat \<rightharpoonup> obj"

definition alloc :: "obj \<Rightarrow> 'a heap_scheme \<Rightarrow> jsval \<times> 'a heap_scheme" where
  "alloc ob h =
     (JObject (next_ref h),
      h\<lparr>next_ref := Suc (next_ref h), objects := (objects h)(next_ref h \<mapsto> ob)\<rparr>)"

text \<open>Sequencing of two steps that may throw: the second runs on the value and the
  state the first one returned.\<close>

definition then_do ::
  "'a outcome \<times> 's \<Rightarrow> ('a \<Rightarrow> 's \<Rightarrow> 'b outcome \<times> 's) \<Rightarrow> 'b outcome \<times> 's" where
  "then_do m f = (case m of (Thrown e, s) \<Rightarrow> (Thrown e, s) | (Returned a, s) \<Rightarrow> f a s)"

text \<open>The constructor of \<open>SidechainObject\<close>; \<open>None\<close> is a missing or falsy argument.\<close>

definition SidechainObject_constructor ::
  "env \<Rightarrow> jsobject option \<Rightarrow> heap \<Rightarrow> SidechainObject outcome \<times> heap" where
  "SidechainObject_constructor env options h =
     (let (s, h) = alloc ScriptObj h;
          this = \<lparr>sidechain = JNum (THIS_SIDECHAIN env),
                  hash = EMPTY env,
                  script = s,
                  type = JNum (Finite (- 1)),
                  version = JNum (Finite (- 1))\<rparr>
      in case options of
           None \<Rightarrow> (Returned this, h)
         | Some opts \<Rightarrow>
             (case SidechainObject_fromOptions opts this of
                (Thrown e, this) \<Rightarrow> (Thrown e, h)
              | (Returned u, this) \<Rightarrow> (Returned this, h)))"

section \<open>MainchainOptions\<close>

record MainchainOptions =
  network :: jsval
  port :: jsval
  headers :: jsval
  host :: jsval
  username :: jsval
  password :: jsval

text \<open>
  \<open>fromOptions\<close> of \<open>MainchainOptions\<close>; \<open>None\<close> is a falsy argument, which
  \<open>assert(options)\<close> rejects. All six fields are first assigned from the options, then
  five of them are checked and assigned again when present.
\<close>

definition MainchainOptions_fromOptions ::
  "jsobject option \<Rightarrow> MainchainOptions \<Rightarrow> unit outcome \<times> MainchainOptions" where
  "MainchainOptions_fromOptions arg this =
     (case arg of
        None \<Rightarrow> (Thrown AssertionError, this)
      | Some options \<Rightarrow>
     (let this = this\<lparr>network := options ''network''\<rparr>;
          this = this\<lparr>port := options ''port''\<rparr>;
          this = this\<lparr>host := options ''host''\<rparr>;
          this = this\<lparr>headers := options ''headers''\<rparr>;
          this = this\<lparr>username := options ''username''\<rparr>;
          this = this\<lparr>password := options ''password''\<rparr>
      in
      if not_null (options ''network'') \<and> typeof (options ''network'') \<noteq> ''object''
      then (Thrown AssertionError, this)
      else let this = (if not_null (options ''network'')
                       then this\<lparr>network := options ''network''\<rparr> else this) in
      if not_null (options ''port'') \<and> typeof (options ''port'') \<noteq> ''number''
      then (Thrown AssertionError, this)
      else let this = (if not_null (options ''port'')
                       then this\<lparr>port := options ''port''\<rparr> else this) in
      if not_null (options ''host'') \<and> typeof (options ''host'') \<noteq> ''string''
      then (Thrown AssertionError, this)
      else let this = (if not_null (options ''host'')
                       then this\<lparr>host := options ''host''\<rparr> else this) in
      if not_null (options ''username'') \<and> typeof (options ''username'') \<noteq> ''string''
      then (Thrown AssertionError, this)
      else let this = (if not_null (options ''username'')
                       then this\<lparr>username := options ''username''\<rparr> else this) in
      if not_null (options ''password'') \<and> typeof (options ''password'') \<noteq> ''string''
      then (Thrown AssertionError, this)
      else let this = (if not_null (options ''password'')
                       then this\<lparr>password := options ''password''\<rparr> else this) in
      (Returned (), this)))"

text \<open>The constructor: \<open>network\<close> is the module's \<open>Network.get('regtest')\<close>.\<close>

definition MainchainOptions_constructor ::
  "env \<Rightarrow> jsobject option \<Rightarrow> heap \<Rightarrow> MainchainOptions outcome \<times> heap" where
  "MainchainOptions_constructor env options h =
     (let (hdrs, h) = alloc (PlainObj [(''Content-Type'', JStr ''application/json'')]) h;
          this = \<lparr>network = regtest env,
                  port = mainchainPort env,
                  headers = hdrs,
                  host = JStr ''localhost'',
                  username = JStr ''user'',
                  password = JStr ''password''\<rparr>
      in case options of
           None \<Rightarrow> (Returned this, h)
         | Some opts \<Rightarrow>
             (case MainchainOptions_fromOptions (Some opts) this of
                (Thrown e, this) \<Rightarrow> (Thrown e, h)
              | (Returned u, this) \<Rightarrow> (Returned this, h)))"

text \<open>The static \<open>fromOptions\<close>: \<open>new MainchainOptions().fromOptions(options)\<close>.\<close>

definition MainchainOptions_static_fromOptions ::
  "env \<Rightarrow> jsobject option \<Rightarrow> heap \<Rightarrow> MainchainOptions outcome \<times> heap" where
  "MainchainOptions_static_fromOptions env options h =
     then_do (MainchainOptions_constructor env None h) (\<lambda>this h.
       case MainchainOptions_fromOptions options this of
         (Thrown e, this) \<Rightarrow> (Thrown e, h)
       | (Returned u, this) \<Rightarrow> (Returned this, h))"


section \<open>MainchainClient\<close>

record rpc_call =
  path :: string
  "method" :: string
  params :: "jsval list"

record MainchainClient =
  opened :: bool
  options :: MainchainOptions
  client_network :: jsval
  client_port :: jsval
  client_host :: jsval
  socket_port :: jsval
  client_headers :: jsval
  client_username :: jsval
  client_password :: jsval

text \<open>
  The state a method runs in: the heap, the calls handed to the transport so far (oldest
  first), the client object and the reference \<open>this\<close> by which it is known.
\<close>

record state = heap +
  dispatched :: "rpc_call list"
  this_ref :: jsval
  client :: MainchainClient

text \<open>
  The constructor. What the constructor of the base class (\<open>bcurl.Client\<close>) sets up is
  outside the sources; the model keeps the fields the subclass assigns.
\<close>

definition MainchainClient_constructor ::
  "env \<Rightarrow> jsobject option \<Rightarrow> heap \<Rightarrow> state outcome" where
  "MainchainClient_constructor env opts h =
     (let (this, h) = alloc ClientObj h in
      case MainchainOptions_constructor env opts h of
        (Thrown e, h) \<Rightarrow> Thrown e
      | (Returned os, h) \<Rightarrow>
          Returned
            \<lparr>next_ref = next_ref h, objects = objects h,
             dispatched = [],
             this_ref = this,
             client = \<lparr>opened = False,
                       options = os,
                       client_network = network os,
                       client_port = port os,
                       client_host = host os,
                       socket_port = port os,
                       client_headers = headers os,
                       client_username = username os,
                       client_password = password os\<rparr>\<rparr>)"

text \<open>\<open>execute\<close> of the base class hands one call to the transport and returns the
  promise of its response.\<close>

definition execute :: "string \<Rightarrow> string \<Rightarrow> jsval list \<Rightarrow> state \<Rightarrow> jsval outcome \<times> state" where
  "execute endpoint name args s =
     (let (promise, s) = alloc PromiseObj s
      in (Returned promise,
          s\<lparr>dispatched := dispatched s @ [\<lparr>path = endpoint, method = name, params = args\<rparr>]\<rparr>))"

subsection \<open>Assertions\<close>

text \<open>\<open>x.length\<close>: a \<open>TypeError\<close> on \<open>undefined\<close> and \<open>null\<close>, the number of code
  units of a string, the object's own answer for an object or function, and
  \<open>undefined\<close> for every other primitive.\<close>

fun get_length :: "env \<Rightarrow> jsval \<Rightarrow> error + jsval" where
  "get_length env JUndefined = Inl TypeError"
| "get_length env JNull = Inl TypeError"
| "get_length env (JStr s) = Inr (JNum (Finite (of_nat (length s))))"
| "get_length env (JObject r) = object_length env r"
| "get_length env (JFunction r) = object_length env r"
| "get_length env v = Inr JUndefined"

definition length_is_64 :: "env \<Rightarrow> jsval \<Rightarrow> error + bool" where
  "length_is_64 env v =
     (case get_length env v of Inl e \<Rightarrow> Inl e | Inr l \<Rightarrow> Inr (strict_eq l (JNum (Finite 64))))"

text \<open>\<open>a && b\<close> and \<open>a || b\<close> on conditions whose evaluation may throw; the right
  operand counts only when the left one does not decide.\<close>

definition and_also :: "error + bool \<Rightarrow> error + bool \<Rightarrow> error + bool" where
  "and_also a b = (case a of Inl e \<Rightarrow> Inl e | Inr x \<Rightarrow> if x then b else Inr False)"

definition or_else :: "error + bool \<Rightarrow> error + bool \<Rightarrow> error + bool" where
  "or_else a b = (case a of Inl e \<Rightarrow> Inl e | Inr x \<Rightarrow> if x then Inr True else b)"

text \<open>\<open>assert(c)\<close>: the error thrown, if any.\<close>

definition assert :: "error + bool \<Rightarrow> error option" where
  "assert c = (case c of Inl e \<Rightarrow> Some e | Inr x \<Rightarrow> if x then None else Some AssertionError)"

text \<open>A run of assertions throws what the first failing one throws.\<close>

fun asserts :: "error option list \<Rightarrow> error option" where
  "asserts [] = None"
| "asserts (None # rest) = asserts rest"
| "asserts (Some e # rest) = Some e"

definition guarded ::
  "error option list \<Rightarrow> (state \<Rightarrow> jsval outcome \<times> state) \<Rightarrow> state \<Rightarrow> jsval outcome \<times> state" where
  "guarded checks body s = (case asserts checks of Some e \<Rightarrow> (Thrown e, s) | None \<Rightarrow> body s)"

text \<open>\<open>typeof v === 'string' && v.length === 64\<close>\<close>

definition string_and_64 :: "env \<Rightarrow> jsval \<Rightarrow> error + bool" where
  "string_and_64 env v = and_also (Inr (typeof v = ''string'')) (length_is_64 env v)"

text \<open>\<open>typeof v === 'string' || v.length === 64\<close>\<close>

definition string_or_64 :: "env \<Rightarrow> jsval \<Rightarrow> error + bool" where
  "string_or_64 env v = or_else (Inr (typeof v = ''string'')) (length_is_64 env v)"

subsection \<open>Amount\<close>

definition Amount_new :: "env \<Rightarrow> jsval \<Rightarrow> state \<Rightarrow> jsval outcome \<times> state" where
  "Amount_new env v s =
     (case Amount_throws env v of
        Some e \<Rightarrow> (Thrown e, s)
      | None \<Rightarrow> (let (amt, s) = alloc (AmountObj v) s in (Returned amt, s)))"

definition toString :: "env \<Rightarrow> jsval \<Rightarrow> state \<Rightarrow> jsval outcome \<times> state" where
  "toString env amt s =
     (case amt of
        JObject r \<Rightarrow>
          (case objects s r of
             Some (AmountObj v) \<Rightarrow> (Returned (JStr (Amount_toString env v)), s)
           | _ \<Rightarrow> (Thrown TypeError, s))
      | _ \<Rightarrow> (Thrown TypeError, s))"


subsection \<open>The methods\<close>

text \<open>
  Each method returns how its body completes, with the state it leaves. For a method
  declared \<open>async\<close> the caller sees the completion through the promise the call
  returns: \<open>Returned v\<close> resolves it with \<open>v\<close>, \<open>Thrown e\<close> rejects it with \<open>e\<close>.
\<close>

definition "open" :: "state \<Rightarrow> jsval outcome \<times> state" where
  "open s = (Returned (this_ref s), s)"

definition broadcastWithdrawalBundle ::
  "env \<Rightarrow> jsval \<Rightarrow> jsval \<Rightarrow> state \<Rightarrow> jsval outcome \<times> state" where
  "broadcastWithdrawalBundle env sidechain' hash' =
     guarded [assert (string_and_64 env hash')]
       (execute ''/'' ''receivewithdrawalbundle'' [sidechain', hash'])"

definition verifyBMM ::
  "env \<Rightarrow> jsval \<Rightarrow> jsval \<Rightarrow> jsval \<Rightarrow> state \<Rightarrow> jsval outcome \<times> state" where
  "verifyBMM env hashMainBlock hashBMM sidechain' =
     guarded [assert (string_and_64 env hashMainBlock),
              assert (string_and_64 env hashBMM),
              assert (ge_number env sidechain' (Finite 0))]
       (execute ''/'' ''verifybmm'' [hashMainBlock, hashBMM, sidechain'])"

definition getMainchainInfo :: "state \<Rightarrow> jsval outcome \<times> state" where
  "getMainchainInfo = execute ''/'' ''getblockchaininfo'' []"

definition getMainchainTip :: "state \<Rightarrow> jsval outcome \<times> state" where
  "getMainchainTip = execute ''/'' ''getbestblockhash'' []"

definition getMainchainBlockHash :: "jsval \<Rightarrow> state \<Rightarrow> jsval outcome \<times> state" where
  "getMainchainBlockHash height =
     guarded [assert (Inr (typeof height = ''number''))]
       (execute ''/'' ''getblockhash'' [height])"

definition getSidechainTip :: "jsval \<Rightarrow> state \<Rightarrow> jsval outcome \<times> state" where
  "getSidechainTip num =
     guarded [assert (Inr (typeof num = ''number''))]
       (execute ''/'' ''listsidechainctip'' [num])"

definition getRecentBlockHashes :: "state \<Rightarrow> jsval outcome \<times> state" where
  "getRecentBlockHashes = execute ''/'' ''listpreviousblockhashes'' []"

definition getBlockCount :: "state \<Rightarrow> jsval outcome \<times> state" where
  "getBlockCount = execute ''/'' ''getblockcount'' []"

definition hasSpentWithdrawal ::
  "env \<Rightarrow> jsval \<Rightarrow> jsval \<Rightarrow> state \<Rightarrow> jsval outcome \<times> state" where
  "hasSpentWithdrawal env hash' sidechain' =
     guarded [assert (string_and_64 env hash'),
              assert (ge_number env sidechain' (Finite 0))]
       (execute ''/'' ''havespentwithdrawal'' [hash', sidechain'])"

definition hasFailedWithdrawal ::
  "env \<Rightarrow> jsval \<Rightarrow> jsval \<Rightarrow> state \<Rightarrow> jsval outcome \<times> state" where
  "hasFailedWithdrawal env hash' sidechain' =
     guarded [assert (string_and_64 env hash'),
              assert (ge_number env sidechain' (Finite 0))]
       (execute ''/'' ''havefailedwithdrawal'' [hash', sidechain'])"

definition getWorkScore :: "jsval \<Rightarrow> jsval \<Rightarrow> state \<Rightarrow> jsval outcome \<times> state" where
  "getWorkScore sidechain' hash' =
     guarded [assert (Inr (typeof sidechain' = ''number'')),
              assert (Inr (typeof hash' = ''string''))]
       (execute ''/'' ''getworkscore'' [sidechain', hash'])"

definition getAverageMainchainFees :: "jsval \<Rightarrow> state \<Rightarrow> jsval outcome \<times> state" where
  "getAverageMainchainFees blocks =
     guarded [assert (Inr (typeof blocks = ''number''))]
       (execute ''/'' ''getaveragefee'' [blocks])"

definition getWithdrawalBundleStatus ::
  "env \<Rightarrow> jsval \<Rightarrow> state \<Rightarrow> jsval outcome \<times> state" where
  "getWithdrawalBundleStatus env sidechain' =
     guarded [assert (ge_number env sidechain' (Finite 0))]
       (execute ''/'' ''listwithdrawalstatus'' [sidechain'])"

text \<open>The third assertion of \<open>verifyDeposit\<close> is \<open>assert(typeof tx >= 0)\<close>: it compares
  the string \<open>typeof tx\<close> with \<open>0\<close>.\<close>

definition verifyDeposit ::
  "env \<Rightarrow> jsval \<Rightarrow> jsval \<Rightarrow> jsval \<Rightarrow> state \<Rightarrow> jsval outcome \<times> state" where
  "verifyDeposit env hashMainBlock txid tx =
     guarded [assert (string_and_64 env hashMainBlock),
              assert (string_and_64 env txid),
              assert (ge_number env (JStr (typeof tx)) (Finite 0))]
       (execute ''/'' ''verifydeposit'' [hashMainBlock, txid, tx])"

text \<open>
  \<open>sendBMMRequest\<close>. \<open>amt === new Amount(0)\<close> compares the reference of the Amount made
  from the argument with the reference of a new Amount.
\<close>

definition sendBMMRequest ::
  "env \<Rightarrow> jsval \<Rightarrow> jsval \<Rightarrow> jsval \<Rightarrow> jsval \<Rightarrow> jsval \<Rightarrow> state \<Rightarrow> jsval outcome \<times> state" where
  "sendBMMRequest env amount height criticalHash sidechain' prevMainBlock =
     guarded [assert (Inr (typeof height = ''number'')),
              assert (string_or_64 env criticalHash),
              assert (string_or_64 env prevMainBlock),
              assert (ge_number env sidechain' (Finite 0))]
       (\<lambda>s. then_do (Amount_new env amount s) (\<lambda>amt s.
             then_do (Amount_new env (JNum (Finite 0)) s) (\<lambda>zero s.
             then_do (if strict_eq amt zero
                      then Amount_new env (CRITICAL_DATA_AMT env) s
                      else (Returned amt, s)) (\<lambda>amt s.
             then_do (toString env amt s) (\<lambda>str s.
               execute ''/'' ''createbmmcriticaldatatx''
                 [str, height, criticalHash, sidechain', prevMainBlock] s)))))"

definition createSidechainProposal ::
  "env \<Rightarrow> jsval \<Rightarrow> jsval \<Rightarrow> jsval \<Rightarrow> jsval \<Rightarrow> jsval \<Rightarrow> jsval \<Rightarrow> state \<Rightarrow> jsval outcome \<times> state" where
  "createSidechainProposal env sidechain' name desc version' hashID hashID2 =
     guarded [assert (ge_number env sidechain' (THIS_SIDECHAIN env)),
              assert (Inr (typeof name = ''string'')),
              assert (Inr (typeof desc = ''string'')),
              assert (ge_number env version' (Finite 0)),
              assert (Inr (typeof hashID = ''string'')),
              assert (Inr (typeof hashID2 = ''string''))]
       (let tar = SIDECHAIN_BUILD_TAR_HASH env;
            commit = SIDECHAIN_BUILD_COMMIT_HASH env
        in execute ''/'' ''createsidechainproposal''
             [sidechain', name, desc, version', tar, commit])"

definition createSidechainDeposit ::
  "env \<Rightarrow> jsval \<Rightarrow> jsval \<Rightarrow> jsval \<Rightarrow> jsval \<Rightarrow> state \<Rightarrow> jsval outcome \<times> state" where
  "createSidechainDeposit env sidechain' addr amount fee =
     guarded [assert (ge_number env sidechain' (Finite 0)),
              assert (Inr (typeof addr = ''string''))]
       (\<lambda>s. then_do (Amount_new env amount s) (\<lambda>amt s.
             then_do (toString env amt s) (\<lambda>str s.
               execute ''/'' ''createsidechaindeposit'' [sidechain', addr, str, fee] s)))"

definition getSidechainActivationStatus ::
  "env \<Rightarrow> jsval \<Rightarrow> state \<Rightarrow> jsval outcome \<times> state" where
  "getSidechainActivationStatus env sidechain' =
     guarded [assert (ge_number env sidechain' (Finite 0))]
       (execute ''/'' ''getsidechainactivationstatus'' [sidechain'])"

text \<open>
  \<open>isConnected\<close>. \<open>blocks\<close> is bound to the promise that \<open>then\<close> returns; the callback,
  which stores the resolved \<open>value\<close> in \<open>blocks\<close>, runs only after the body, which never
  awaits, has completed. The argument \<open>value\<close> is what the \<open>getblockcount\<close> call
  resolves to.
\<close>

definition promise_then :: "jsval \<Rightarrow> state \<Rightarrow> jsval outcome \<times> state" where
  "promise_then promise s = (let (derived, s) = alloc PromiseObj s in (Returned derived, s))"

definition isConnected :: "jsval \<Rightarrow> state \<Rightarrow> jsval outcome \<times> state" where
  "isConnected value s =
     (let zero = JNum (Finite 0)
      in then_do (getBlockCount s) (\<lambda>promise s.
         then_do (promise_then promise s) (\<lambda>blocks s.
           let connection = (if strict_eq blocks zero then JBool False else JBool True);
               blocks = value
           in (Returned connection, s))))"

text \<open>\<open>close\<close> is \<open>return this.close()\<close>; \<open>None\<close> is a call that does not return.\<close>

partial_function (option) close :: "state \<Rightarrow> (jsval outcome \<times> state) option" where
  "close s = close s"

text \<open>
  An engine runs the calls on a stack of finite depth. \<open>close_on_stack frames\<close> is a
  call of \<open>close\<close> with \<open>frames\<close> frames left: with none left the call throws a
  \<open>RangeError\<close>; otherwise the body runs, which is the call of \<open>close\<close> with one frame
  fewer, and completes as that call does.
\<close>

fun close_on_stack :: "nat \<Rightarrow> state \<Rightarrow> jsval outcome \<times> state" where
  "close_on_stack 0 s = (Thrown RangeError, s)"
| "close_on_stack (Suc frames) s = close_on_stack frames s"


subsection \<open>Runs of a client\<close>

text \<open>A call of one of the client's methods with its arguments; \<open>IsConnected\<close> carries
  the value its \<open>getblockcount\<close> call resolves to, and \<open>Close\<close> the number of stack
  frames the engine has left for it.\<close>

datatype call =
    Open
  | BroadcastWithdrawalBundle jsval jsval
  | VerifyBMM jsval jsval jsval
  | GetMainchainInfo
  | GetMainchainTip
  | GetMainchainBlockHash jsval
  | GetSidechainTip jsval
  | GetRecentBlockHashes
  | GetBlockCount
  | HasSpentWithdrawal jsval jsval
  | HasFailedWithdrawal jsval jsval
  | GetWorkScore jsval jsval
  | GetAverageMainchainFees jsval
  | GetWithdrawalBundleStatus jsval
  | VerifyDeposit jsval jsval jsval
  | SendBMMRequest jsval jsval jsval jsval jsval
  | CreateSidechainProposal jsval jsval jsval jsval jsval jsval
  | CreateSidechainDeposit jsval jsval jsval jsval
  | GetSidechainActivationStatus jsval
  | IsConnected jsval
  | Close nat

fun invoke :: "env \<Rightarrow> call \<Rightarrow> state \<Rightarrow> jsval outcome \<times> state" where
  "invoke env Open s = open s"
| "invoke env (BroadcastWithdrawalBundle a b) s = broadcastWithdrawalBundle env a b s"
| "invoke env (VerifyBMM a b c) s = verifyBMM env a b c s"
| "invoke env GetMainchainInfo s = getMainchainInfo s"
| "invoke env GetMainchainTip s = getMainchainTip s"
| "invoke env (GetMainchainBlockHash a) s = getMainchainBlockHash a s"
| "invoke env (GetSidechainTip a) s = getSidechainTip a s"
| "invoke env GetRecentBlockHashes s = getRecentBlockHashes s"
| "invoke env GetBlockCount s = getBlockCount s"
| "invoke env (HasSpentWithdrawal a b) s = hasSpentWithdrawal env a b s"
| "invoke env (HasFailedWithdrawal a b) s = hasFailedWithdrawal env a b s"
| "invoke env (GetWorkScore a b) s = getWorkScore a b s"
| "invoke env (GetAverageMainchainFees a) s = getAverageMainchainFees a s"
| "invoke env (GetWithdrawalBundleStatus a) s = getWithdrawalBundleStatus env a s"
| "invoke env (VerifyDeposit a b c) s = verifyDeposit env a b c s"
| "invoke env (SendBMMRequest a b c d e) s = sendBMMRequest env a b c d e s"
| "invoke env (CreateSidechainProposal a b c d e f) s =
     createSidechainProposal env a b c d e f s"
| "invoke env (CreateSidechainDeposit a b c d) s = createSidechainDeposit env a b c d s"
| "invoke env (GetSidechainActivationStatus a) s = getSidechainActivationStatus env a s"
| "invoke env (IsConnected v) s = isConnected v s"
| "invoke env (Close frames) s = close_on_stack frames s"

text \<open>The states of a client: the one its constructor returns, and every state a
  method call leaves behind, whether it returns or throws.\<close>

inductive reachable :: "env \<Rightarrow> state \<Rightarrow> bool" for env :: env where
  constructed: "MainchainClient_constructor env opts h = Returned s \<Longrightarrow> reachable env s"
| invoked: "reachable env s \<Longrightarrow> invoke env c s = (out, s') \<Longrightarrow> reachable env s'"

section \<open>An example environment\<close>

text \<open>
  One instance of the collaborators, for evaluating the model on concrete inputs: an
  Amount accepts a number and prints the integers \<open>0\<close> to \<open>2\<close> in decimal, objects
  coerce as a plain object does, and a numeric string is read when it is a run of
  decimal digits.
\<close>

definition example_digit :: "char \<Rightarrow> nat" where
  "example_digit c = of_char c - 48"

definition example_literal :: "string \<Rightarrow> jsnum" where
  "example_literal s =
     (if list_all (\<lambda>c. c \<in> set ''0123456789'') s
      then Finite (of_nat (foldl (\<lambda>n c. 10 * n + example_digit c) 0 s))
      else NaN)"

definition example_amount_string :: "jsval \<Rightarrow> string" where
  "example_amount_string v =
     (if v = JNum (Finite 0) then ''0''
      else if v = JNum (Finite 1) then ''1''
      else if v = JNum (Finite 2) then ''2''
      else ''many'')"

definition example_env :: env where
  "example_env =
     \<lparr>THIS_SIDECHAIN = Finite 0,
      CRITICAL_DATA_AMT = JNum (Finite 1),
      SIDECHAIN_BUILD_TAR_HASH = JStr ''tar'',
      SIDECHAIN_BUILD_COMMIT_HASH = JStr ''commit'',
      EMPTY = JObject 0,
      regtest = JObject 1,
      mainchainPort = JNum (Finite 18443),
      Amount_throws = (\<lambda>v. if typeof v = ''number'' then None
                            else Some (CollaboratorError ''amount'')),
      Amount_toString = example_amount_string,
      StrNumericLiteral = example_literal,
      object_primitive = (\<lambda>r. Inr (JStr ''[object Object]'')),
      object_length = (\<lambda>r. Inr JUndefined)\<rparr>"

definition example_heap :: heap where
  "example_heap = \<lparr>next_ref = 10, objects = Map.empty\<rparr>"

definition example_state :: state where
  "example_state =
     \<lparr>next_ref = 12,
      objects = [10 \<mapsto> ClientObj,
                 11 \<mapsto> PlainObj [(''Content-Type'', JStr ''application/json'')]],
      dispatched = [],
      this_ref = JObject 10,
      client =
        \<lparr>opened = False,
         options = \<lparr>network = JObject 1, port = JNum (Finite 18443), headers = JObject 11,
                    host = JStr ''localhost'', username = JStr ''user'',
                    password = JStr ''password''\<rparr>,
         client_network = JObject 1,
         client_port = JNum (Finite 18443),
         client_host = JStr ''localhost'',
         socket_port = JNum (Finite 18443),
         client_headers = JObject 11,
         client_username = JStr ''user'',
         client_password = JStr ''password''\<rparr>\<rparr>"

definition a64 :: string where
  "a64 = replicate 64 CHR ''a''"

definition b64 :: string where
  "b64 = replicate 64 CHR ''b''"

text \<open>A 64-character hex string, the wire form of a 32-byte hash.\<close>

definition is_hex64 :: "string \<Rightarrow> bool" where
  "is_hex64 h = (length h = 64 \<and> list_all (\<lambda>c. c \<in> set ''0123456789abcdefABCDEF'') h)"


section \<open>Facts about the building blocks\<close>

lemma dispatched_execute:
  "dispatched (snd (execute e n a s)) = dispatched s @ [\<lparr>path = e, method = n, params = a\<rparr>]"
  by (simp add: execute_def alloc_def Let_def split: prod.splits)

lemma returned_execute: "\<exists>p. fst (execute e n a s) = Returned p"
  by (simp add: execute_def alloc_def Let_def split: prod.splits)

lemma string_and_64_JStr: "string_and_64 env (JStr h) = Inr (length h = 64)"
  by (simp add: string_and_64_def and_also_def length_is_64_def)

lemma string_and_64_no_error: "string_and_64 env v = Inr (\<exists>h. v = JStr h \<and> length h = 64)"
  by (cases v) (simp_all add: string_and_64_def and_also_def length_is_64_def)

lemma is_hex64_a64: "is_hex64 a64"
  by (simp add: is_hex64_def a64_def list_all_iff)

lemma is_hex64_b64: "is_hex64 b64"
  by (simp add: is_hex64_def b64_def list_all_iff)

lemma ge_number_example_zero: "ge_number example_env (JNum (Finite 0)) (Finite 0) = Inr True"
  by (simp add: ge_number_def)

lemma example_constructed:
  "MainchainClient_constructor example_env None example_heap = Returned example_state"
  by (simp add: MainchainClient_constructor_def MainchainOptions_constructor_def alloc_def
      example_env_def example_heap_def example_state_def Let_def)

section \<open>SidechainObject: merging options\<close>

text \<open>
  C1 (the code departs from the claim). Merging options that hold only \<open>type: 2\<close> into
  any entry returns normally and leaves \<open>sidechain\<close>, \<open>hash\<close>, \<open>script\<close> and
  \<open>version\<close> \<open>undefined\<close> instead of keeping their values, and so does constructing
  an entry from these options. Constructing an entry from
  \<open>{sidechain: 3, hash: <a Buffer>, type: 1}\<close> throws a \<open>ReferenceError\<close>, so the
  entry of the example cannot be built. A merge whose \<open>type\<close> is wrong-typed throws
  after \<open>sidechain\<close>, \<open>hash\<close> and \<open>script\<close> have been overwritten.
\<close>

theorem SidechainObject_fromOptions_overwrites:
  "SidechainObject_fromOptions (no_properties(''type'' := JNum (Finite 2))) this =
     (Returned (),
      \<lparr>sidechain = JUndefined, hash = JUndefined, script = JUndefined,
       type = JNum (Finite 2), version = JUndefined\<rparr>)
   \<and> fst (SidechainObject_constructor env
            (Some (no_properties(''type'' := JNum (Finite 2)))) h) =
     Returned \<lparr>sidechain = JUndefined, hash = JUndefined, script = JUndefined,
               type = JNum (Finite 2), version = JUndefined\<rparr>
   \<and> fst (SidechainObject_constructor env
            (Some (no_properties(''sidechain'' := JNum (Finite 3), ''hash'' := JObject b,
                                 ''type'' := JNum (Finite 1)))) h) = Thrown ReferenceError
   \<and> SidechainObject_fromOptions
        (no_properties(''sidechain'' := JNum (Finite 7), ''type'' := JStr ''x'')) this =
     (Thrown AssertionError,
      this\<lparr>sidechain := JNum (Finite 7), hash := JUndefined, script := JUndefined\<rparr>)"
  by (simp add: SidechainObject_fromOptions_def SidechainObject_constructor_def alloc_def
      no_properties_def Let_def)


section \<open>MainchainOptions: merging options\<close>

text \<open>
  C5 (the code departs from the claim). Constructing the options from \<open>{host: 'node1'}\<close>
  leaves \<open>network\<close>, \<open>port\<close>, \<open>headers\<close>, \<open>username\<close> and \<open>password\<close>
  \<open>undefined\<close> instead of their defaults, and a merge whose \<open>port\<close> is a string
  throws after the string has been stored in \<open>port\<close> and every other field has been
  overwritten.
\<close>

theorem MainchainOptions_fromOptions_overwrites:
  "fst (MainchainOptions_constructor env (Some (no_properties(''host'' := JStr ''node1''))) h) =
     Returned \<lparr>network = JUndefined, port = JUndefined, headers = JUndefined,
               host = JStr ''node1'', username = JUndefined, password = JUndefined\<rparr>
   \<and> MainchainOptions_fromOptions (Some (no_properties(''port'' := JStr ''x''))) this =
     (Thrown AssertionError,
      \<lparr>network = JUndefined, port = JStr ''x'', headers = JUndefined,
       host = JUndefined, username = JUndefined, password = JUndefined\<rparr>)"
  by (simp add: MainchainOptions_constructor_def MainchainOptions_fromOptions_def alloc_def
      no_properties_def Let_def)

section \<open>MainchainClient: what is dispatched\<close>

lemma broadcastWithdrawalBundle_64:
  "length h = 64 \<Longrightarrow>
   broadcastWithdrawalBundle env sc (JStr h) s =
     execute ''/'' ''receivewithdrawalbundle'' [sc, JStr h] s"
  by (simp add: broadcastWithdrawalBundle_def guarded_def assert_def string_and_64_JStr)

lemma broadcastWithdrawalBundle_not_64:
  "length h \<noteq> 64 \<Longrightarrow>
   broadcastWithdrawalBundle env sc (JStr h) s = (Thrown AssertionError, s)"
  by (simp add: broadcastWithdrawalBundle_def guarded_def assert_def string_and_64_JStr)

text \<open>
  C8. For a 64-character hex string \<open>h\<close> and an integer \<open>n \<ge> 0\<close>,
  \<open>broadcastWithdrawalBundle(n, h)\<close> returns the promise of one call added to the
  transport, with method \<open>receivewithdrawalbundle\<close> and parameters \<open>[n, h]\<close>; for a
  string \<open>h\<close> of any other length and any first argument it fails its assertion and
  leaves the state, so the transport, as it was.
\<close>

theorem broadcastWithdrawalBundle_dispatch:
  "(is_hex64 h \<and> 0 \<le> n \<longrightarrow>
      dispatched (snd (broadcastWithdrawalBundle env (JNum (Finite (of_int n))) (JStr h) s)) =
        dispatched s @ [\<lparr>path = ''/'', method = ''receivewithdrawalbundle'',
                         params = [JNum (Finite (of_int n)), JStr h]\<rparr>]
      \<and> (\<exists>p. fst (broadcastWithdrawalBundle env (JNum (Finite (of_int n))) (JStr h) s) =
                Returned p))
   \<and> (length h \<noteq> 64 \<longrightarrow>
        broadcastWithdrawalBundle env sc (JStr h) s = (Thrown AssertionError, s))"
  by (simp add: is_hex64_def broadcastWithdrawalBundle_64 broadcastWithdrawalBundle_not_64
      dispatched_execute returned_execute)

theorem broadcastWithdrawalBundle_dispatch_witness:
  "is_hex64 a64 \<and> (0::int) \<le> 0
   \<and> dispatched (snd (broadcastWithdrawalBundle example_env (JNum (Finite 0)) (JStr a64)
                        example_state)) =
       [\<lparr>path = ''/'', method = ''receivewithdrawalbundle'',
         params = [JNum (Finite 0), JStr a64]\<rparr>]
   \<and> length ''abc'' \<noteq> 64
   \<and> broadcastWithdrawalBundle example_env (JNum (Finite 0)) (JStr ''abc'') example_state =
       (Thrown AssertionError, example_state)"
  using broadcastWithdrawalBundle_dispatch
          [where h = a64 and n = 0 and env = example_env and s = example_state]
        broadcastWithdrawalBundle_dispatch
          [where h = "''abc''" and env = example_env and s = example_state
             and sc = "JNum (Finite 0)"]
        is_hex64_a64
  by (simp add: example_state_def)

text \<open>
  C9. For all three arguments and every state the third assertion of \<open>verifyDeposit\<close>,
  \<open>typeof tx >= 0\<close>, is false, and the call throws an \<open>AssertionError\<close> and leaves
  the state as it was: nothing is dispatched.
\<close>

theorem verifyDeposit_always_fails:
  "ge_number env (JStr (typeof tx)) (Finite 0) = Inr False
   \<and> verifyDeposit env hashMainBlock txid tx s = (Thrown AssertionError, s)"
proof -
  have third: "ge_number env (JStr (typeof tx)) (Finite 0) = Inr False"
    by (cases tx)
       (simp_all add: ge_number_def StringToNumber_def StrWhiteSpaceChar_def)
  have "verifyDeposit env hashMainBlock txid tx s = (Thrown AssertionError, s)"
    by (simp add: verifyDeposit_def guarded_def assert_def third string_and_64_no_error)
  with third show ?thesis by simp
qed

lemma createSidechainProposal_valid:
  assumes "ge_number env sc (THIS_SIDECHAIN env) = Inr True"
    and "typeof name = ''string''" and "typeof desc = ''string''"
    and "ge_number env ver (Finite 0) = Inr True"
    and "typeof h1 = ''string''" and "typeof h2 = ''string''"
  shows "createSidechainProposal env sc name desc ver h1 h2 s =
     execute ''/'' ''createsidechainproposal''
       [sc, name, desc, ver, SIDECHAIN_BUILD_TAR_HASH env, SIDECHAIN_BUILD_COMMIT_HASH env] s"
  using assms by (simp add: createSidechainProposal_def guarded_def assert_def Let_def)

text \<open>
  C3 as stated fails: the method asserts that both supplied hashes are strings, so of two
  calls with otherwise equal, valid arguments, the one given string hashes dispatches
  its call and the one given no hashes throws and dispatches nothing.
\<close>

theorem createSidechainProposal_hashes_counterexample:
  "dispatched (snd (createSidechainProposal example_env (JNum (Finite 0)) (JStr ''test'')
       (JStr ''chain'') (JNum (Finite 0)) (JStr a64) (JStr b64) example_state)) =
     [\<lparr>path = ''/'', method = ''createsidechainproposal'',
       params = [JNum (Finite 0), JStr ''test'', JStr ''chain'', JNum (Finite 0),
                 JStr ''tar'', JStr ''commit'']\<rparr>]
   \<and> createSidechainProposal example_env (JNum (Finite 0)) (JStr ''test'')
       (JStr ''chain'') (JNum (Finite 0)) JUndefined JUndefined example_state =
     (Thrown AssertionError, example_state)
   \<and> dispatched (snd (createSidechainProposal example_env (JNum (Finite 0)) (JStr ''test'')
       (JStr ''chain'') (JNum (Finite 0)) (JStr a64) (JStr b64) example_state)) \<noteq>
     dispatched (snd (createSidechainProposal example_env (JNum (Finite 0)) (JStr ''test'')
       (JStr ''chain'') (JNum (Finite 0)) JUndefined JUndefined example_state))"
proof -
  have sc: "ge_number example_env (JNum (Finite 0)) (THIS_SIDECHAIN example_env) = Inr True"
    using ge_number_example_zero by (simp add: example_env_def)
  have fixed: "SIDECHAIN_BUILD_TAR_HASH example_env = JStr ''tar''"
    "SIDECHAIN_BUILD_COMMIT_HASH example_env = JStr ''commit''"
    "dispatched example_state = []"
    by (simp_all add: example_env_def example_state_def)
  have sent: "dispatched (snd (createSidechainProposal example_env (JNum (Finite 0))
         (JStr ''test'') (JStr ''chain'') (JNum (Finite 0)) (JStr a64) (JStr b64)
         example_state)) =
       [\<lparr>path = ''/'', method = ''createsidechainproposal'',
         params = [JNum (Finite 0), JStr ''test'', JStr ''chain'', JNum (Finite 0),
                   JStr ''tar'', JStr ''commit'']\<rparr>]"
    using sc ge_number_example_zero
    by (simp add: createSidechainProposal_valid dispatched_execute fixed)
  have thrown: "createSidechainProposal example_env (JNum (Finite 0)) (JStr ''test'')
       (JStr ''chain'') (JNum (Finite 0)) JUndefined JUndefined example_state =
     (Thrown AssertionError, example_state)"
    using sc ge_number_example_zero
    by (simp add: createSidechainProposal_def guarded_def assert_def)
  have "dispatched (snd (createSidechainProposal example_env (JNum (Finite 0)) (JStr ''test'')
       (JStr ''chain'') (JNum (Finite 0)) JUndefined JUndefined example_state)) = []"
    by (simp only: thrown snd_conv fixed)
  with sent thrown show ?thesis by simp
qed

text \<open>
  C3, amended. Let the arguments other than the hashes be valid and let the hashes the
  caller supplies be strings, as the method asserts. Then two calls of
  \<open>createSidechainProposal\<close> in the same state that differ only in these hashes
  complete alike, and each adds to the transport the one call with the parameters
  \<open>[sidechain, name, desc, version, SIDECHAIN_BUILD_TAR_HASH, SIDECHAIN_BUILD_COMMIT_HASH]\<close>:
  the hash positions carry the constants, never the supplied hashes.
\<close>

theorem createSidechainProposal_ignores_supplied_hashes:
  assumes "ge_number env sc (THIS_SIDECHAIN env) = Inr True"
    and "typeof name = ''string''" and "typeof desc = ''string''"
    and "ge_number env ver (Finite 0) = Inr True"
    and "typeof hashA = ''string''" and "typeof hashB = ''string''"
    and "typeof hashA' = ''string''" and "typeof hashB' = ''string''"
  shows "createSidechainProposal env sc name desc ver hashA hashB s =
           createSidechainProposal env sc name desc ver hashA' hashB' s
     \<and> dispatched (snd (createSidechainProposal env sc name desc ver hashA hashB s)) =
         dispatched s @
           [\<lparr>path = ''/'', method = ''createsidechainproposal'',
             params = [sc, name, desc, ver,
                       SIDECHAIN_BUILD_TAR_HASH env, SIDECHAIN_BUILD_COMMIT_HASH env]\<rparr>]
     \<and> dispatched (snd (createSidechainProposal env sc name desc ver hashA' hashB' s)) =
         dispatched s @
           [\<lparr>path = ''/'', method = ''createsidechainproposal'',
             params = [sc, name, desc, ver,
                       SIDECHAIN_BUILD_TAR_HASH env, SIDECHAIN_BUILD_COMMIT_HASH env]\<rparr>]"
  using assms by (simp add: createSidechainProposal_valid dispatched_execute)

theorem createSidechainProposal_ignores_supplied_hashes_witness:
  "ge_number example_env (JNum (Finite 0)) (THIS_SIDECHAIN example_env) = Inr True
   \<and> typeof (JStr ''test'') = ''string'' \<and> typeof (JStr ''chain'') = ''string''
   \<and> ge_number example_env (JNum (Finite 0)) (Finite 0) = Inr True
   \<and> typeof (JStr a64) = ''string'' \<and> typeof (JStr b64) = ''string''
   \<and> typeof (JStr ''other'') = ''string''
   \<and> createSidechainProposal example_env (JNum (Finite 0)) (JStr ''test'') (JStr ''chain'')
       (JNum (Finite 0)) (JStr a64) (JStr b64) example_state =
     createSidechainProposal example_env (JNum (Finite 0)) (JStr ''test'') (JStr ''chain'')
       (JNum (Finite 0)) (JStr b64) (JStr ''other'') example_state
   \<and> dispatched (snd (createSidechainProposal example_env (JNum (Finite 0)) (JStr ''test'')
         (JStr ''chain'') (JNum (Finite 0)) (JStr b64) (JStr ''other'') example_state)) =
       [\<lparr>path = ''/'', method = ''createsidechainproposal'',
         params = [JNum (Finite 0), JStr ''test'', JStr ''chain'', JNum (Finite 0),
                   JStr ''tar'', JStr ''commit'']\<rparr>]"
proof -
  have sc: "ge_number example_env (JNum (Finite 0)) (THIS_SIDECHAIN example_env) = Inr True"
    using ge_number_example_zero by (simp add: example_env_def)
  have fixed: "SIDECHAIN_BUILD_TAR_HASH example_env = JStr ''tar''"
    "SIDECHAIN_BUILD_COMMIT_HASH example_env = JStr ''commit''"
    "dispatched example_state = []"
    by (simp_all add: example_env_def example_state_def)
  have name: "typeof (JStr ''test'') = ''string''" and desc: "typeof (JStr ''chain'') = ''string''"
    by simp_all
  have strs: "typeof (JStr a64) = ''string''" "typeof (JStr b64) = ''string''"
    "typeof (JStr ''other'') = ''string''"
    by simp_all
  note w = createSidechainProposal_ignores_supplied_hashes
             [OF sc name desc ge_number_example_zero strs(1) strs(2) strs(2) strs(3),
              where s = example_state]
  have same: "createSidechainProposal example_env (JNum (Finite 0)) (JStr ''test'')
       (JStr ''chain'') (JNum (Finite 0)) (JStr a64) (JStr b64) example_state =
     createSidechainProposal example_env (JNum (Finite 0)) (JStr ''test'') (JStr ''chain'')
       (JNum (Finite 0)) (JStr b64) (JStr ''other'') example_state"
    by (rule conjunct1 [OF w])
  have sent: "dispatched (snd (createSidechainProposal example_env (JNum (Finite 0))
         (JStr ''test'') (JStr ''chain'') (JNum (Finite 0)) (JStr b64) (JStr ''other'')
         example_state)) =
       [\<lparr>path = ''/'', method = ''createsidechainproposal'',
         params = [JNum (Finite 0), JStr ''test'', JStr ''chain'', JNum (Finite 0),
                   JStr ''tar'', JStr ''commit'']\<rparr>]"
    using conjunct2 [OF conjunct2 [OF w]] by (simp only: fixed append_Nil)
  from sc name desc ge_number_example_zero strs same sent show ?thesis
    by (intro conjI)
qed

section \<open>MainchainClient: the BMM request\<close>

text \<open>The Amount made from the argument and the Amount made from \<open>0\<close> are two
  objects, so the comparison is false and the string sent is that of the argument.\<close>

lemma sendBMMRequest_amount:
  assumes "Amount_throws env amount = None" and "Amount_throws env (JNum (Finite 0)) = None"
  shows "then_do (Amount_new env amount s) (\<lambda>amt s.
           then_do (Amount_new env (JNum (Finite 0)) s) (\<lambda>zero s.
           then_do (if strict_eq amt zero
                    then Amount_new env (CRITICAL_DATA_AMT env) s
                    else (Returned amt, s)) (\<lambda>amt s.
           then_do (toString env amt s) (\<lambda>str s. f str s)))) =
         f (JStr (Amount_toString env amount))
           (snd (alloc (AmountObj (JNum (Finite 0))) (snd (alloc (AmountObj amount) s))))"
  using assms by (simp add: Amount_new_def then_do_def alloc_def toString_def Let_def)

lemma sendBMMRequest_strings:
  assumes "typeof height = ''number''"
    and "ge_number env sc (Finite 0) = Inr True"
    and "Amount_throws env amount = None" and "Amount_throws env (JNum (Finite 0)) = None"
  shows "dispatched (snd (sendBMMRequest env amount height (JStr c) sc (JStr p) s)) =
     dispatched s @
       [\<lparr>path = ''/'', method = ''createbmmcriticaldatatx'',
         params = [JStr (Amount_toString env amount), height, JStr c, sc, JStr p]\<rparr>]"
  using assms
  by (simp add: sendBMMRequest_def guarded_def assert_def string_or_64_def or_else_def
      sendBMMRequest_amount dispatched_execute alloc_def)

lemma Amount_example: "Amount_throws example_env (JNum n) = None"
  by (simp add: example_env_def)

text \<open>
  C2 (the code departs from the claim). With valid arguments and the amount \<open>0\<close>,
  \<open>sendBMMRequest\<close> sends as amount the string of \<open>Amount(0)\<close>, whatever
  \<open>CRITICAL_DATA_AMT\<close> is: the branch that would substitute the critical-data amount
  is never taken.
\<close>

theorem sendBMMRequest_zero_amount:
  assumes "typeof height = ''number''" and "is_hex64 c" and "is_hex64 p"
    and "ge_number env sc (Finite 0) = Inr True"
    and "Amount_throws env (JNum (Finite 0)) = None"
  shows "dispatched (snd (sendBMMRequest env (JNum (Finite 0)) height (JStr c) sc (JStr p) s)) =
     dispatched s @
       [\<lparr>path = ''/'', method = ''createbmmcriticaldatatx'',
         params = [JStr (Amount_toString env (JNum (Finite 0))), height, JStr c, sc, JStr p]\<rparr>]"
  using assms by (simp add: sendBMMRequest_strings)

theorem sendBMMRequest_zero_amount_witness:
  "typeof (JNum (Finite 5)) = ''number'' \<and> is_hex64 a64 \<and> is_hex64 b64
   \<and> ge_number example_env (JNum (Finite 0)) (Finite 0) = Inr True
   \<and> Amount_throws example_env (JNum (Finite 0)) = None
   \<and> dispatched (snd (sendBMMRequest example_env (JNum (Finite 0)) (JNum (Finite 5)) (JStr a64)
       (JNum (Finite 0)) (JStr b64) example_state)) =
     [\<lparr>path = ''/'', method = ''createbmmcriticaldatatx'',
       params = [JStr ''0'', JNum (Finite 5), JStr a64, JNum (Finite 0), JStr b64]\<rparr>]
   \<and> Amount_toString example_env (CRITICAL_DATA_AMT example_env) = ''1''"
proof -
  have fixed: "Amount_toString example_env (JNum (Finite 0)) = ''0''"
    "Amount_toString example_env (CRITICAL_DATA_AMT example_env) = ''1''"
    "dispatched example_state = []"
    by (simp_all add: example_env_def example_state_def example_amount_string_def)
  have "dispatched (snd (sendBMMRequest example_env (JNum (Finite 0)) (JNum (Finite 5))
          (JStr a64) (JNum (Finite 0)) (JStr b64) example_state)) =
     dispatched example_state @
       [\<lparr>path = ''/'', method = ''createbmmcriticaldatatx'',
         params = [JStr (Amount_toString example_env (JNum (Finite 0))), JNum (Finite 5),
                   JStr a64, JNum (Finite 0), JStr b64]\<rparr>]"
    by (rule sendBMMRequest_zero_amount
          [OF _ is_hex64_a64 is_hex64_b64 ge_number_example_zero Amount_example])
       simp
  then have "dispatched (snd (sendBMMRequest example_env (JNum (Finite 0)) (JNum (Finite 5))
          (JStr a64) (JNum (Finite 0)) (JStr b64) example_state)) =
     [\<lparr>path = ''/'', method = ''createbmmcriticaldatatx'',
       params = [JStr ''0'', JNum (Finite 5), JStr a64, JNum (Finite 0), JStr b64]\<rparr>]"
    unfolding fixed append_Nil .
  with is_hex64_a64 is_hex64_b64 ge_number_example_zero Amount_example fixed(2)
  show ?thesis by simp
qed

text \<open>
  C7 (the code departs from the claim). When the other arguments are valid,
  \<open>sendBMMRequest\<close> dispatches \<open>createbmmcriticaldatatx\<close> for every pair of strings
  given as \<open>criticalHash\<close> and \<open>prevMainBlock\<close>, whatever their length and content:
  the assertion is \<open>typeof x === 'string' || x.length === 64\<close>.
\<close>

theorem sendBMMRequest_accepts_any_string:
  assumes "typeof height = ''number''"
    and "ge_number env sc (Finite 0) = Inr True"
    and "Amount_throws env amount = None" and "Amount_throws env (JNum (Finite 0)) = None"
  shows "dispatched (snd (sendBMMRequest env amount height (JStr c) sc (JStr p) s)) =
     dispatched s @
       [\<lparr>path = ''/'', method = ''createbmmcriticaldatatx'',
         params = [JStr (Amount_toString env amount), height, JStr c, sc, JStr p]\<rparr>]"
  using assms by (rule sendBMMRequest_strings)

theorem sendBMMRequest_accepts_any_string_witness:
  "typeof (JNum (Finite 5)) = ''number''
   \<and> ge_number example_env (JNum (Finite 0)) (Finite 0) = Inr True
   \<and> Amount_throws example_env (JNum (Finite 2)) = None
   \<and> Amount_throws example_env (JNum (Finite 0)) = None
   \<and> \<not> is_hex64 ''abc'' \<and> \<not> is_hex64 []
   \<and> dispatched (snd (sendBMMRequest example_env (JNum (Finite 2)) (JNum (Finite 5))
         (JStr ''abc'') (JNum (Finite 0)) (JStr []) example_state)) =
       [\<lparr>path = ''/'', method = ''createbmmcriticaldatatx'',
         params = [JStr ''2'', JNum (Finite 5), JStr ''abc'', JNum (Finite 0), JStr []]\<rparr>]"
proof -
  have fixed: "Amount_toString example_env (JNum (Finite 2)) = ''2''"
    "dispatched example_state = []"
    by (simp_all add: example_env_def example_state_def example_amount_string_def)
  have "dispatched (snd (sendBMMRequest example_env (JNum (Finite 2)) (JNum (Finite 5))
          (JStr ''abc'') (JNum (Finite 0)) (JStr []) example_state)) =
     dispatched example_state @
       [\<lparr>path = ''/'', method = ''createbmmcriticaldatatx'',
         params = [JStr (Amount_toString example_env (JNum (Finite 2))), JNum (Finite 5),
                   JStr ''abc'', JNum (Finite 0), JStr []]\<rparr>]"
    by (rule sendBMMRequest_accepts_any_string
          [OF _ ge_number_example_zero Amount_example Amount_example])
       simp
  then have "dispatched (snd (sendBMMRequest example_env (JNum (Finite 2)) (JNum (Finite 5))
         (JStr ''abc'') (JNum (Finite 0)) (JStr []) example_state)) =
       [\<lparr>path = ''/'', method = ''createbmmcriticaldatatx'',
         params = [JStr ''2'', JNum (Finite 5), JStr ''abc'', JNum (Finite 0), JStr []]\<rparr>]"
    unfolding fixed append_Nil .
  with ge_number_example_zero Amount_example show ?thesis
    by (simp add: is_hex64_def)
qed

section \<open>MainchainClient: connection and life cycle\<close>

text \<open>
  C4 (the code departs from the claim). \<open>isConnected\<close> resolves to \<open>true\<close> in every
  state and for every value the \<open>getblockcount\<close> call resolves to, \<open>0\<close> included: it
  compares the promise, not the value, with \<open>0\<close>.
\<close>

theorem isConnected_always_true:
  "fst (isConnected value s) = Returned (JBool True)"
  by (simp add: isConnected_def getBlockCount_def execute_def promise_then_def then_do_def
      alloc_def Let_def split: prod.splits)

text \<open>
  C6 (the code departs from the claim). No call of \<open>close\<close> returns, in any state:
  the body is a call of \<open>close\<close> itself, so nothing is released and no state is
  reached.
\<close>

theorem close_never_returns: "close s = None"
proof (cases "close s")
  case None
  then show ?thesis .
next
  case (Some r)
  have "\<And>f t u. (\<And>x y. f x = Some y \<Longrightarrow> False) \<Longrightarrow> f t = Some u \<Longrightarrow> False"
    by blast
  then have False
    by (rule close.raw_induct [where P = "\<lambda>s r. False", OF _ Some])
  then show ?thesis ..
qed


section \<open>MainchainClient: the client object is never written\<close>

lemma client_execute: "client (snd (execute e n a s)) = client s"
  by (simp add: execute_def alloc_def Let_def split: prod.splits)

lemma client_guarded:
  "(\<And>s. client (snd (body s)) = client s) \<Longrightarrow>
   client (snd (guarded checks body s)) = client s"
  by (simp add: guarded_def split: option.splits)

lemma client_then_do:
  "client (snd m) = c \<Longrightarrow> (\<And>a s. client s = c \<Longrightarrow> client (snd (f a s)) = c) \<Longrightarrow>
   client (snd (then_do m f)) = c"
  by (cases m) (auto simp add: then_do_def split: outcome.splits)

lemma client_Amount_new: "client (snd (Amount_new env v s)) = client s"
  by (simp add: Amount_new_def alloc_def Let_def split: option.splits prod.splits)

lemma client_toString: "client (snd (toString env v s)) = client s"
  by (simp add: toString_def split: jsval.splits option.splits obj.splits)

lemma client_sendBMMRequest: "client (snd (sendBMMRequest env a b c d e s)) = client s"
  unfolding sendBMMRequest_def
  by (intro client_guarded client_then_do)
     (simp_all add: client_Amount_new client_toString client_execute)

lemma client_createSidechainDeposit:
  "client (snd (createSidechainDeposit env a b c d s)) = client s"
  unfolding createSidechainDeposit_def
  by (intro client_guarded client_then_do)
     (simp_all add: client_Amount_new client_toString client_execute)

lemma client_isConnected: "client (snd (isConnected v s)) = client s"
  unfolding isConnected_def Let_def getBlockCount_def
  by (intro client_then_do) (simp_all add: client_execute promise_then_def alloc_def Let_def)

text \<open>On a finite stack every call of \<open>close\<close> ends in the \<open>RangeError\<close> of the innermost
  call and leaves the state as it was.\<close>

lemma close_on_stack_RangeError: "close_on_stack frames s = (Thrown RangeError, s)"
  by (induction frames) simp_all

text \<open>Every method call leaves the client object as it found it.\<close>

lemma client_invoke: "client (snd (invoke env c s)) = client s"
  by (cases c)
     (simp_all add: open_def broadcastWithdrawalBundle_def verifyBMM_def getMainchainInfo_def
        getMainchainTip_def getMainchainBlockHash_def getSidechainTip_def
        getRecentBlockHashes_def getBlockCount_def hasSpentWithdrawal_def
        hasFailedWithdrawal_def getWorkScore_def getAverageMainchainFees_def
        getWithdrawalBundleStatus_def verifyDeposit_def createSidechainProposal_def
        getSidechainActivationStatus_def Let_def client_guarded client_execute
        client_sendBMMRequest client_createSidechainDeposit client_isConnected
        close_on_stack_RangeError)

text \<open>
  C10. In every state a client can reach (the state its constructor returns, and any
  state left by a call of one of its methods, \<open>close\<close> on the engine's finite stack
  included) \<open>opened\<close> is \<open>false\<close>: the constructor sets it so and no method assigns
  it. In such a state \<open>open\<close> returns the client and leaves the client object as it
  was, and so does \<open>close\<close>, whatever the depth of the stack, when it ends in its
  \<open>RangeError\<close>.
\<close>

theorem opened_stays_false:
  assumes "reachable env s"
  shows "opened (client s) = False
     \<and> open s = (Returned (this_ref s), s)
     \<and> client (snd (close_on_stack frames s)) = client s
     \<and> opened (client (snd (close_on_stack frames s))) = False"
proof -
  have inv: "opened (client s) = False"
    using assms
  proof (induction rule: reachable.induct)
    case (constructed opts h s)
    then show ?case
      by (auto simp add: MainchainClient_constructor_def Let_def
          split: prod.splits outcome.splits)
  next
    case (invoked s c out s')
    have "client (snd (invoke env c s)) = client s"
      by (rule client_invoke)
    with invoked show ?case by simp
  qed
  have "close_on_stack frames s = (Thrown RangeError, s)"
    by (induction frames) simp_all
  with inv show ?thesis
    by (simp add: open_def)
qed

theorem opened_stays_false_witness:
  "reachable example_env
     (snd (close_on_stack 3 (snd (open (snd (getBlockCount example_state))))))
   \<and> opened (client
       (snd (close_on_stack 3 (snd (open (snd (getBlockCount example_state))))))) = False
   \<and> fst (close_on_stack 3 (snd (open (snd (getBlockCount example_state))))) =
       Thrown RangeError"
proof -
  have r0: "reachable example_env example_state"
    by (rule reachable.constructed [OF example_constructed])
  have r1: "reachable example_env (snd (getBlockCount example_state))"
    by (rule reachable.invoked
          [OF r0, where c = GetBlockCount and out = "fst (getBlockCount example_state)"])
       simp
  have r2: "reachable example_env (snd (open (snd (getBlockCount example_state))))"
    by (rule reachable.invoked
          [OF r1, where c = Open
             and out = "fst (open (snd (getBlockCount example_state)))"])
       simp
  have r3: "reachable example_env
     (snd (close_on_stack 3 (snd (open (snd (getBlockCount example_state))))))"
    by (rule reachable.invoked
          [OF r2, where c = "Close 3"
             and out = "fst (close_on_stack 3
                          (snd (open (snd (getBlockCount example_state)))))"])
       simp
  have thrown: "fst (close_on_stack 3 (snd (open (snd (getBlockCount example_state))))) =
       Thrown RangeError"
    by (simp add: numeral_3_eq_3)
  from r3 opened_stays_false [OF r3] thrown show ?thesis by simp
qed

end
